theory Spec2Isabelle
  imports Complex_Main
begin

section \<open>Speech emotion recognition: prediction pipeline and live capture loop\<close>

text \<open>
  A shallow embedding of \<^verbatim>\<open>Week-5/emotion_predictor.py\<close>,
  \<^verbatim>\<open>Week-5/live_emotion_detector.py\<close> and the start-up block of
  \<^verbatim>\<open>Week-5/demo_script.py\<close>.

  Python exceptions are values: a function that may raise returns \<open>exn + 'a\<close>, with
  \<open>Inl\<close> the raised exception (its class and the text \<open>str(e)\<close>). The third-party
  libraries (librosa, numpy reductions, joblib, the file system) are not part of the
  repository; they are the fields of the record \<open>env\<close>, and every theorem holds for
  every such environment. Samples and features are numpy floats; they are modelled as
  the \<open>real\<close> numbers they denote. The one place where the code compares a float
  with a literal, the silence threshold of the live loop, is modelled with the value
  that the comparison really uses (see \<open>float32_0_01\<close>).
\<close>

subsection \<open>Exceptions\<close>

text \<open>
  The exception classes the code raises or meets; \<open>LibraryError\<close> stands for any
  other subclass of \<open>Exception\<close> that a library call raises. All of them are caught
  by \<open>except Exception\<close>.
\<close>

datatype py_class =
  FileNotFoundError | ValueError | KeyError | IndexError | Exception | LibraryError

datatype exn = Exn (exn_class: py_class) (exn_msg: string)

definition and_then :: "exn + 'a \<Rightarrow> ('a \<Rightarrow> exn + 'b) \<Rightarrow> exn + 'b" where
  "and_then r f = (case r of Inl e \<Rightarrow> Inl e | Inr v \<Rightarrow> f v)"

subsection \<open>Rendering of lengths in messages\<close>

definition digit_char :: "nat \<Rightarrow> char" where
  "digit_char d = ''0123456789'' ! d"

fun str_nat :: "nat \<Rightarrow> string" where
  "str_nat n = (if n < 10 then [digit_char n] else str_nat (n div 10) @ [digit_char (n mod 10)])"

declare str_nat.simps [simp del]

subsection \<open>External collaborators\<close>

type_synonym samples = "real list"
type_synonym matrix = "real list list"
type_synonym probabilities = "string \<rightharpoonup> real"

text \<open>
  A fitted scaler (\<open>n_features_in_\<close>, here the field \<open>n_features_in\<close>, and
  \<open>transform\<close>) and a fitted classifier (\<open>predict\<close>, \<open>classes_\<close>, here the field
  \<open>classes\<close>, and \<open>predict_proba\<close> when the classifier has one:
  \<open>hasattr(self.model, 'predict_proba')\<close> is \<open>clf_predict_proba \<noteq> None\<close>).
  The text of exceptions raised by the interpreter itself (a missing dictionary key, an
  index out of range) is not modelled: their message is empty.
\<close>

record scaler =
  n_features_in :: nat
  transform :: "matrix \<Rightarrow> exn + matrix"

record classifier =
  clf_predict :: "matrix \<Rightarrow> exn + int list"
  clf_predict_proba :: "(matrix \<Rightarrow> exn + matrix) option"
  classes :: "int list"

record env =
  os_path_exists :: "string \<Rightarrow> bool"
  joblib_load_model :: "string \<Rightarrow> exn + classifier"
  joblib_load_scaler :: "string \<Rightarrow> exn + scaler"
  librosa_load :: "string \<Rightarrow> int \<Rightarrow> real \<Rightarrow> exn + (samples \<times> int)"
  librosa_mfcc :: "samples \<Rightarrow> int \<Rightarrow> nat \<Rightarrow> exn + matrix"
  librosa_delta :: "matrix \<Rightarrow> nat \<Rightarrow> exn + matrix"
  librosa_spectral_centroid :: "samples \<Rightarrow> int \<Rightarrow> exn + matrix"
  librosa_spectral_rolloff :: "samples \<Rightarrow> int \<Rightarrow> exn + matrix"
  librosa_zero_crossing_rate :: "samples \<Rightarrow> exn + matrix"
  np_mean :: "real list \<Rightarrow> real"
  np_std :: "real list \<Rightarrow> real"

subsection \<open>EmotionPredictor\<close>

record EmotionPredictor =
  model :: classifier
  scaler :: scaler
  expected_features :: nat
  emotion_map :: "int \<rightharpoonup> string"

definition RAVDESS_emotion_map :: "int \<rightharpoonup> string" where
  "RAVDESS_emotion_map =
     [1 \<mapsto> ''Neutral'', 2 \<mapsto> ''Calm'', 3 \<mapsto> ''Happy'', 4 \<mapsto> ''Sad'',
      5 \<mapsto> ''Angry'', 6 \<mapsto> ''Fearful'', 7 \<mapsto> ''Disgust'', 8 \<mapsto> ''Surprised'']"

text \<open>\<open>EmotionPredictor.__init__\<close> (\<^verbatim>\<open>emotion_predictor.py\<close>, lines 46--67).\<close>

definition EmotionPredictor_init :: "env \<Rightarrow> string \<Rightarrow> string \<Rightarrow> exn + EmotionPredictor" where
  "EmotionPredictor_init E model_path scaler_path =
     (if \<not> os_path_exists E model_path then
        Inl (Exn FileNotFoundError (''Model not found at '' @ model_path))
      else if \<not> os_path_exists E scaler_path then
        Inl (Exn FileNotFoundError (''Scaler not found at '' @ scaler_path))
      else
        and_then (joblib_load_model E model_path) (\<lambda>m.
        and_then (joblib_load_scaler E scaler_path) (\<lambda>s.
          Inr \<lparr>model = m, scaler = s, expected_features = n_features_in s,
               emotion_map = RAVDESS_emotion_map\<rparr>)))"

text \<open>
  The feature computation on a decoded buffer: lines 108--144 of \<^verbatim>\<open>emotion_predictor.py\<close>
  and, with the same calls in the same order, lines 86--122 of
  \<^verbatim>\<open>live_emotion_detector.py\<close>. \<open>np.mean(m, axis=1)\<close> reduces each row,
  \<open>np.mean(m)\<close> reduces all entries, \<open>np.hstack\<close> concatenates.
\<close>

definition stack_features :: "env \<Rightarrow> samples \<Rightarrow> int \<Rightarrow> exn + real list" where
  "stack_features E y sr =
     and_then (librosa_mfcc E y sr 13) (\<lambda>mfcc.
     and_then (librosa_delta E mfcc 1) (\<lambda>delta_mfcc.
     and_then (librosa_delta E mfcc 2) (\<lambda>delta2_mfcc.
       let mfcc_mean = map (np_mean E) mfcc;
           mfcc_std = map (np_std E) mfcc;
           delta_mean = map (np_mean E) delta_mfcc;
           delta_std = map (np_std E) delta_mfcc;
           delta2_mean = map (np_mean E) delta2_mfcc;
           delta2_std = map (np_std E) delta2_mfcc
       in
     and_then (librosa_spectral_centroid E y sr) (\<lambda>centroid.
     and_then (librosa_spectral_rolloff E y sr) (\<lambda>rolloff.
     and_then (librosa_zero_crossing_rate E y) (\<lambda>zcr.
       Inr (mfcc_mean @ mfcc_std @ delta_mean @ delta_std @ delta2_mean @ delta2_std @
            [np_mean E (concat centroid), np_mean E (concat rolloff),
             np_mean E (concat zcr)])))))))"

text \<open>The feature-count check of \<open>extract_features\<close> (lines 146--164).\<close>

definition reconcile_dimension :: "EmotionPredictor \<Rightarrow> real list \<Rightarrow> exn + real list" where
  "reconcile_dimension self features =
     (if length features \<noteq> expected_features self then
        if length features = 81 \<and> expected_features self = 82 then
          Inr (features @ [0])
        else if length features = 81 \<and> expected_features self = 83 then
          Inr (features @ replicate 2 0)
        else
          Inl (Exn ValueError (''Feature dimension mismatch: expected '' @
                 str_nat (expected_features self) @ '', got '' @ str_nat (length features)))
      else Inr features)"

text \<open>
  \<open>EmotionPredictor.extract_features\<close> (lines 96--167): the existence check is
  outside the \<open>try\<close>; everything raised inside it, the dimension error included, is
  caught by \<open>except Exception as e\<close> and raised again as
  \<open>Exception(f"Feature extraction failed: {str(e)}")\<close>.
\<close>

definition extract_features ::
    "env \<Rightarrow> EmotionPredictor \<Rightarrow> string \<Rightarrow> int \<Rightarrow> real \<Rightarrow> exn + real list" where
  "extract_features E self audio_path sr duration =
     (if \<not> os_path_exists E audio_path then
        Inl (Exn FileNotFoundError (''Audio file not found: '' @ audio_path))
      else
        (case and_then (librosa_load E audio_path sr duration) (\<lambda>(y, sr).
              and_then (stack_features E y sr) (\<lambda>features.
              reconcile_dimension self features))
         of Inl e \<Rightarrow> Inl (Exn Exception (''Feature extraction failed: '' @ exn_msg e))
          | Inr features \<Rightarrow> Inr features))"

subsection \<open>Indexing\<close>

definition list_get :: "'a list \<Rightarrow> nat \<Rightarrow> exn + 'a" where
  "list_get xs idx = (if idx < length xs then Inr (xs ! idx) else Inl (Exn IndexError []))"

definition dict_get :: "('k \<rightharpoonup> 'v) \<Rightarrow> 'k \<Rightarrow> exn + 'v" where
  "dict_get d k = (case d k of None \<Rightarrow> Inl (Exn KeyError []) | Some v \<Rightarrow> Inr v)"

subsection \<open>Prediction\<close>

type_synonym prediction = "string \<times> real option \<times> probabilities"

text \<open>
  The loop \<open>for idx, prob in enumerate(probs)\<close> of \<open>predict\<close> (lines 209--212) and of
  \<open>predict_from_audio\<close> (lines 153--156): \<open>idx\<close> counts from the position reached,
  \<open>probabilities\<close> is the dictionary filled so far.
\<close>

fun map_probabilities ::
    "EmotionPredictor \<Rightarrow> nat \<Rightarrow> real list \<Rightarrow> probabilities \<Rightarrow> exn + probabilities" where
  "map_probabilities self idx [] probabilities = Inr probabilities"
| "map_probabilities self idx (prob # probs) probabilities =
     and_then (list_get (classes (model self)) idx) (\<lambda>emotion_id_mapped.
     and_then (dict_get (emotion_map self) emotion_id_mapped) (\<lambda>emotion_name.
       map_probabilities self (idx + 1) probs (probabilities(emotion_name \<mapsto> prob))))"

text \<open>
  What \<open>predict\<close> (lines 192--216) and \<open>predict_from_audio\<close> (lines 138--160) do with
  the feature vector, the same statements in both.
\<close>

definition classify :: "EmotionPredictor \<Rightarrow> real list \<Rightarrow> exn + prediction" where
  "classify self features =
     (let features = [features] in
      and_then (transform (scaler self) features) (\<lambda>features_scaled.
      and_then (clf_predict (model self) features_scaled) (\<lambda>ids.
      and_then (list_get ids 0) (\<lambda>emotion_id.
      and_then (dict_get (emotion_map self) emotion_id) (\<lambda>emotion_label.
        (case clf_predict_proba (model self) of
           None \<Rightarrow> Inr (emotion_label, None, Map.empty)
         | Some predict_proba \<Rightarrow>
             and_then (predict_proba features_scaled) (\<lambda>rows.
             and_then (list_get rows 0) (\<lambda>probs.
             and_then (map_probabilities self 0 probs Map.empty) (\<lambda>probabilities.
             and_then (dict_get probabilities emotion_label) (\<lambda>confidence.
               Inr (emotion_label, Some confidence, probabilities)))))))))))"

text \<open>\<open>EmotionPredictor.predict\<close> (lines 190--216), with the defaults of
  \<open>extract_features\<close>: \<open>sr = 22050\<close>, \<open>duration = 3.0\<close>.\<close>

definition predict :: "env \<Rightarrow> EmotionPredictor \<Rightarrow> string \<Rightarrow> exn + prediction" where
  "predict E self audio_path =
     and_then (extract_features E self audio_path 22050 3) (\<lambda>features.
       classify self features)"

text \<open>
  \<open>EmotionPredictor.predict_batch\<close> (lines 231--239). An entry is the tuple
  \<open>predict\<close> returned, or \<open>(None, None, {})\<close>: the label of an entry is optional.
\<close>

type_synonym batch_entry = "string option \<times> real option \<times> probabilities"

fun predict_batch_loop ::
    "env \<Rightarrow> EmotionPredictor \<Rightarrow> string list \<Rightarrow> batch_entry list \<Rightarrow> batch_entry list" where
  "predict_batch_loop E self [] results = results"
| "predict_batch_loop E self (path # audio_paths) results =
     predict_batch_loop E self audio_paths
       (case predict E self path of
          Inr (emotion, confidence, probabilities) \<Rightarrow>
            results @ [(Some emotion, confidence, probabilities)]
        | Inl e \<Rightarrow> results @ [(None, None, Map.empty)])"

definition predict_batch :: "env \<Rightarrow> EmotionPredictor \<Rightarrow> string list \<Rightarrow> batch_entry list" where
  "predict_batch E self audio_paths = predict_batch_loop E self audio_paths []"

subsection \<open>Start-up of the demo script\<close>

text \<open>
  \<open>main\<close> of \<^verbatim>\<open>demo_script.py\<close>, lines 160--174: the predictor is constructed; a
  \<open>FileNotFoundError\<close> and any other \<open>Exception\<close> both end in \<open>sys.exit(1)\<close>.
  The dispatch on the command line that follows is not modelled.
\<close>

datatype startup = SysExit nat | Loaded EmotionPredictor

definition main_startup :: "env \<Rightarrow> startup" where
  "main_startup E =
     (case EmotionPredictor_init E ''artifacts/svm_model.pkl'' ''artifacts/standard_scaler.pkl'' of
        Inr predictor \<Rightarrow> Loaded predictor
      | Inl e \<Rightarrow> (if exn_class e = FileNotFoundError then SysExit 1 else SysExit 1))"

subsection \<open>LiveEmotionDetector\<close>

text \<open>
  \<open>history\<close> is \<open>deque(maxlen=3)\<close>, created empty by \<open>__init__\<close> (line 42); no
  statement of the class appends to it or reads it. \<open>duration\<close> and \<open>sample_rate\<close>
  are Python integers (3 and 22050 by default).
\<close>

record LiveEmotionDetector =
  predictor :: EmotionPredictor
  duration :: int
  sample_rate :: int
  is_recording :: bool
  history :: "prediction list"

definition LiveEmotionDetector_init ::
    "env \<Rightarrow> string \<Rightarrow> string \<Rightarrow> int \<Rightarrow> int \<Rightarrow> exn + LiveEmotionDetector" where
  "LiveEmotionDetector_init E model_path scaler_path duration_arg sample_rate_arg =
     and_then (EmotionPredictor_init E model_path scaler_path) (\<lambda>p.
       Inr \<lparr>predictor = p, duration = duration_arg, sample_rate = sample_rate_arg,
            is_recording = False, history = []\<rparr>)"

text \<open>The slice \<open>audio[:k]\<close> for an integer \<open>k\<close>: a negative \<open>k\<close> counts from the end.\<close>

definition slice_to :: "'a list \<Rightarrow> int \<Rightarrow> 'a list" where
  "slice_to xs k = (if 0 \<le> k then take (nat k) xs else take (length xs - nat (- k)) xs)"

text \<open>
  The first statement of \<open>extract_features_from_audio\<close> (lines 82--84, under the
  comment "Ensure audio is the right length").
\<close>

definition ensure_length :: "LiveEmotionDetector \<Rightarrow> samples \<Rightarrow> samples" where
  "ensure_length self audio =
     (if int (length audio) > duration self * sample_rate self
      then slice_to audio (duration self * sample_rate self)
      else audio)"

text \<open>\<open>LiveEmotionDetector.extract_features_from_audio\<close> (lines 82--124).\<close>

definition extract_features_from_audio ::
    "env \<Rightarrow> LiveEmotionDetector \<Rightarrow> samples \<Rightarrow> exn + real list" where
  "extract_features_from_audio E self audio =
     (let audio = ensure_length self audio
      in stack_features E audio (sample_rate self))"

text \<open>\<open>LiveEmotionDetector.predict_from_audio\<close> (lines 137--160).\<close>

definition predict_from_audio ::
    "env \<Rightarrow> LiveEmotionDetector \<Rightarrow> samples \<Rightarrow> exn + prediction" where
  "predict_from_audio E self audio =
     and_then (extract_features_from_audio E self audio) (\<lambda>features.
       classify (predictor self) features)"

text \<open>
  \<open>np.max(np.abs(audio))\<close>: numpy raises \<open>ValueError\<close> on an empty array.
\<close>

definition np_max_abs :: "samples \<Rightarrow> exn + real" where
  "np_max_abs audio =
     (case audio of
        [] \<Rightarrow> Inl (Exn ValueError
                ''zero-size array to reduction operation maximum which has no identity'')
      | x # xs \<Rightarrow> Inr (fold max (map abs xs) \<bar>x\<bar>))"

text \<open>
  The test \<open>np.max(np.abs(audio)) < 0.01\<close> (lines 228 and 260). The buffer that
  \<open>record_audio\<close> returns has \<open>dtype='float32'\<close> (line 63), so the peak is a
  float32 scalar, and numpy (from version 2 on) compares it with the Python float
  \<open>0.01\<close> in float32: the peak is compared with the float32 nearest to 0.01, which
  is \<open>5368709 / 2^29\<close>, a little below 1/100. (The comparison in float64 of earlier
  numpy versions differs from this one, on float32 peaks, at the peak
  \<open>5368709 / 2^29\<close> only.)
\<close>

definition float32_0_01 :: real where
  "float32_0_01 = 5368709 / 536870912"

text \<open>
  The observable steps of the live loop, in the order the code performs them: the pauses
  (\<open>time.sleep\<close>), the call of \<open>record_audio\<close>, the warning printed for a quiet
  recording, the message printed once a single recording is accepted, the call of
  \<open>display_result\<close> with its iteration number, and the farewell printed when
  \<open>KeyboardInterrupt\<close> is caught. A run returns its steps, the exception that escaped
  it (if any) and the detector object as the run leaves it.
\<close>

datatype event =
  Sleep nat | Record_audio | Quiet_warning | Recording_complete
| Display_result nat prediction | Stopping

type_synonym run = "event list \<times> exn option \<times> LiveEmotionDetector"

definition emit :: "event list \<Rightarrow> run \<Rightarrow> run" where
  "emit evs r = (case r of (trace, raised, self) \<Rightarrow> (evs @ trace, raised, self))"

text \<open>\<open>LiveEmotionDetector.run_single\<close> (lines 254--270); \<open>audio\<close> is what
  \<open>record_audio\<close> returns.\<close>

definition run_single :: "env \<Rightarrow> LiveEmotionDetector \<Rightarrow> samples \<Rightarrow> run" where
  "run_single E self audio =
     emit [Sleep 3, Record_audio]
       (case np_max_abs audio of
          Inl e \<Rightarrow> ([], Some e, self)
        | Inr peak \<Rightarrow>
            if peak < float32_0_01 then ([Quiet_warning], None, self)
            else
              (case predict_from_audio E self audio of
                 Inl e \<Rightarrow> ([Recording_complete], Some e, self)
               | Inr result \<Rightarrow> ([Recording_complete, Display_result 1 result], None, self)))"

text \<open>
  \<open>LiveEmotionDetector.run_continuous\<close> (lines 216--244). The microphone is the list
  of buffers that the successive calls of \<open>record_audio\<close> return; the user's
  \<open>KeyboardInterrupt\<close> arrives when the list is used up, and is the only exception
  the loop catches. \<open>iteration\<close> is the counter before its increment.
\<close>

fun continuous_loop :: "env \<Rightarrow> LiveEmotionDetector \<Rightarrow> nat \<Rightarrow> samples list \<Rightarrow> run" where
  "continuous_loop E self iteration [] = ([Stopping], None, self)"
| "continuous_loop E self iteration (audio # recordings) =
     emit [Record_audio]
       (case np_max_abs audio of
          Inl e \<Rightarrow> ([], Some e, self)
        | Inr peak \<Rightarrow>
            if peak < float32_0_01 then
              emit [Quiet_warning] (continuous_loop E self (iteration + 1) recordings)
            else
              (case predict_from_audio E self audio of
                 Inl e \<Rightarrow> ([], Some e, self)
               | Inr result \<Rightarrow>
                   emit [Display_result (iteration + 1) result, Sleep 2]
                     (continuous_loop E self (iteration + 1) recordings)))"

definition run_continuous :: "env \<Rightarrow> LiveEmotionDetector \<Rightarrow> samples list \<Rightarrow> run" where
  "run_continuous E self recordings = emit [Sleep 3] (continuous_loop E self 0 recordings)"

subsection \<open>A small concrete environment\<close>

text \<open>
  Stand-ins for the external collaborators, used to run the definitions on concrete
  inputs: three files exist, \<open>broken.wav\<close> does not decode, the cepstral matrix has
  one column, the scaler is the identity and expects \<open>n\<close> features, the classifier
  was fitted on the classes 5, 3, 1 in this order.
\<close>

definition sample_scaler :: "nat \<Rightarrow> scaler" where
  "sample_scaler n = \<lparr>n_features_in = n, transform = (\<lambda>m. Inr m)\<rparr>"

text \<open>
  A scaler that, like a fitted \<open>StandardScaler\<close>, refuses a row whose length is not
  the feature count it was fitted on.
\<close>

definition checking_scaler :: "nat \<Rightarrow> scaler" where
  "checking_scaler n =
     \<lparr>n_features_in = n,
      transform = (\<lambda>m. if list_all (\<lambda>row. length row = n) m then Inr m
         else Inl (Exn ValueError ''X has a different number of features than expected''))\<rparr>"

definition sample_classifier :: classifier where
  "sample_classifier =
     \<lparr>clf_predict = (\<lambda>m. Inr [3]),
      clf_predict_proba = Some (\<lambda>m. Inr [ [1/5, 7/10, 1/10] ]),
      classes = [5, 3, 1]\<rparr>"

definition sample_env :: "nat \<Rightarrow> env" where
  "sample_env n =
     \<lparr>os_path_exists = (\<lambda>p. p \<in> set [''artifacts/svm_model.pkl'',
          ''artifacts/standard_scaler.pkl'', ''a.wav'', ''broken.wav'']),
      joblib_load_model = (\<lambda>p. Inr sample_classifier),
      joblib_load_scaler = (\<lambda>p. Inr (sample_scaler n)),
      librosa_load = (\<lambda>p sr d.
         if p = ''broken.wav'' then Inl (Exn LibraryError ''decode error'')
         else Inr ([1/2, - 1/2], sr)),
      librosa_mfcc = (\<lambda>y sr n_mfcc. Inr (replicate n_mfcc [real (length y)])),
      librosa_delta = (\<lambda>m order. Inr m),
      librosa_spectral_centroid = (\<lambda>y sr. Inr [ [1] ]),
      librosa_spectral_rolloff = (\<lambda>y sr. Inr [ [1] ]),
      librosa_zero_crossing_rate = (\<lambda>y. Inr [ [1] ]),
      np_mean = (\<lambda>xs. sum_list xs / real (length xs)),
      np_std = (\<lambda>xs. 0)\<rparr>"

definition sample_predictor :: "nat \<Rightarrow> EmotionPredictor" where
  "sample_predictor n =
     \<lparr>model = sample_classifier, scaler = sample_scaler n, expected_features = n,
      emotion_map = RAVDESS_emotion_map\<rparr>"

definition sample_detector :: "nat \<Rightarrow> LiveEmotionDetector" where
  "sample_detector n =
     \<lparr>predictor = sample_predictor n, duration = 3, sample_rate = 1,
      is_recording = False, history = []\<rparr>"

text \<open>The predictor and the detector built on the checking scaler.\<close>

definition checking_predictor :: "nat \<Rightarrow> EmotionPredictor" where
  "checking_predictor n =
     \<lparr>model = sample_classifier, scaler = checking_scaler n, expected_features = n,
      emotion_map = RAVDESS_emotion_map\<rparr>"

definition checking_detector :: "nat \<Rightarrow> LiveEmotionDetector" where
  "checking_detector n =
     \<lparr>predictor = checking_predictor n, duration = 3, sample_rate = 1,
      is_recording = False, history = []\<rparr>"

section \<open>Properties\<close>

lemma and_then_Inl [simp]: "and_then (Inl e) f = Inl e"
  by (simp add: and_then_def)

lemma and_then_Inr [simp]: "and_then (Inr v) f = f v"
  by (simp add: and_then_def)

lemma and_then_eq_Inr:
  "and_then r f = Inr w \<longleftrightarrow> (\<exists>v. r = Inr v \<and> f v = Inr w)"
  by (cases r) simp_all


lemma replicate_two: "replicate 2 x = [x, x]"
  by (simp add: numeral_2_eq_2)

subsection \<open>What \<open>extract_features\<close> returns\<close>

lemma stack_features_length:
  assumes "stack_features E y sr = Inr f"
  shows "\<exists>m d1 d2. librosa_mfcc E y sr 13 = Inr m \<and> librosa_delta E m 1 = Inr d1 \<and>
           librosa_delta E m 2 = Inr d2 \<and>
           length f = 2 * length m + 2 * length d1 + 2 * length d2 + 3"
  using assms by (auto simp: stack_features_def and_then_eq_Inr Let_def)

lemma extract_features_run:
  assumes "os_path_exists E path" and "librosa_load E path sr d = Inr (y, sr')"
    and "stack_features E y sr' = Inr f"
  shows "extract_features E self path sr d =
    (case reconcile_dimension self f of
       Inl e \<Rightarrow> Inl (Exn Exception (''Feature extraction failed: '' @ exn_msg e))
     | Inr v \<Rightarrow> Inr v)"
  using assms by (simp add: extract_features_def)

lemma extract_features_Inr:
  assumes "extract_features E self path sr d = Inr v"
  shows "\<exists>y sr' f. os_path_exists E path \<and> librosa_load E path sr d = Inr (y, sr') \<and>
           stack_features E y sr' = Inr f \<and> reconcile_dimension self f = Inr v"
proof -
  from assms have ex: "os_path_exists E path"
    by (auto simp: extract_features_def split: if_splits)
  with assms obtain w where
    w: "and_then (librosa_load E path sr d) (\<lambda>(y, sr).
          and_then (stack_features E y sr) (\<lambda>features.
          reconcile_dimension self features)) = Inr w" and "w = v"
    by (auto simp: extract_features_def split: sum.splits)
  then obtain y sr' where l: "librosa_load E path sr d = Inr (y, sr')"
    and r: "and_then (stack_features E y sr') (reconcile_dimension self) = Inr v"
    by (auto simp: and_then_eq_Inr)
  from r obtain f where "stack_features E y sr' = Inr f" "reconcile_dimension self f = Inr v"
    by (auto simp: and_then_eq_Inr)
  with ex l show ?thesis by blast
qed

lemma extract_features_Inl_class:
  assumes "os_path_exists E path" and "extract_features E self path sr d = Inl e"
  shows "exn_class e = Exception"
  using assms by (auto simp: extract_features_def split: sum.splits)

lemma reconcile_dimension_Inr:
  assumes "reconcile_dimension self f = Inr v"
  shows "length v = expected_features self \<and>
         (v = f \<or> length f = 81 \<and> (v = f @ [0] \<or> v = f @ [0, 0]))"
  using assms by (auto simp: reconcile_dimension_def replicate_two split: if_splits)

subsection \<open>The concrete environment, evaluated\<close>

lemma sample_stack:
  "stack_features (sample_env n) y sr =
     Inr (replicate 13 (real (length y)) @ replicate 13 0 @ replicate 13 (real (length y)) @
          replicate 13 0 @ replicate 13 (real (length y)) @ replicate 13 0 @ [1, 1, 1])"
  by (simp add: stack_features_def sample_env_def)

lemma sample_exists:
  "os_path_exists (sample_env n) ''a.wav''" "os_path_exists (sample_env n) ''broken.wav''"
  by (simp_all add: sample_env_def)

lemma sample_load:
  "librosa_load (sample_env n) ''a.wav'' sr d = Inr ([1/2, - 1/2], sr)"
  "librosa_load (sample_env n) ''broken.wav'' sr d = Inl (Exn LibraryError ''decode error'')"
  by (simp_all add: sample_env_def)

lemma sample_expected: "expected_features (sample_predictor n) = n"
  by (simp add: sample_predictor_def)

subsection \<open>Length of the extracted vector\<close>

text \<open>
  On the file path a returned vector always has the length the scaler expects.
  Whenever \<open>extract_features\<close> returns a vector, its length is the
  \<open>expected_features\<close> of the loaded scaler, and the vector is the stacked features
  \<open>f\<close> of the decoded buffer either unchanged or, when \<open>f\<close> has 81 entries,
  followed by one zero or by two zeros. It does return such a vector for every
  existing file that decodes and whose stacked features have the expected length, or
  have 81 entries when 82 or 83 are expected.
\<close>

lemma extract_features_length:
  "(\<forall>v. extract_features E self path sr d = Inr v \<longrightarrow>
      length v = expected_features self \<and>
      (\<exists>y sr' f. librosa_load E path sr d = Inr (y, sr') \<and> stack_features E y sr' = Inr f \<and>
         (v = f \<or> length f = 81 \<and> (v = f @ [0] \<or> v = f @ [0, 0])))) \<and>
   (\<forall>y sr' f. os_path_exists E path \<and> librosa_load E path sr d = Inr (y, sr') \<and>
        stack_features E y sr' = Inr f \<and>
        (length f = expected_features self \<or>
         length f = 81 \<and> (expected_features self = 82 \<or> expected_features self = 83)) \<longrightarrow>
      (\<exists>v. extract_features E self path sr d = Inr v \<and> length v = expected_features self))"
proof (intro conjI allI impI)
  fix v assume run: "extract_features E self path sr d = Inr v"
  from extract_features_Inr [OF run] obtain y sr' f where
    l: "librosa_load E path sr d = Inr (y, sr')" and s: "stack_features E y sr' = Inr f"
    and r: "reconcile_dimension self f = Inr v" by blast
  from reconcile_dimension_Inr [OF r] show "length v = expected_features self" by simp
  from reconcile_dimension_Inr [OF r] l s
  show "\<exists>y sr' f. librosa_load E path sr d = Inr (y, sr') \<and> stack_features E y sr' = Inr f \<and>
         (v = f \<or> length f = 81 \<and> (v = f @ [0] \<or> v = f @ [0, 0]))" by blast
next
  fix y sr' f
  assume a: "os_path_exists E path \<and> librosa_load E path sr d = Inr (y, sr') \<and>
        stack_features E y sr' = Inr f \<and>
        (length f = expected_features self \<or>
         length f = 81 \<and> (expected_features self = 82 \<or> expected_features self = 83))"
  then have e: "os_path_exists E path" and l: "librosa_load E path sr d = Inr (y, sr')"
    and s: "stack_features E y sr' = Inr f" by simp_all
  note run = extract_features_run [OF e l s, of self]
  from a have "\<exists>v. reconcile_dimension self f = Inr v \<and> length v = expected_features self"
    by (auto simp: reconcile_dimension_def)
  with run show "\<exists>v. extract_features E self path sr d = Inr v \<and>
      length v = expected_features self" by auto
qed

text \<open>
  C1. With a scaler fitted on 82 features, the file path and the live path part ways.
  \<open>extract_features\<close> pads the 81 stacked features to the 82 entries the scaler
  expects, and \<open>predict\<close> returns a result. \<open>extract_features_from_audio\<close> has no
  feature-count check: it returns the 81 stacked features as they are, not the 82 of
  the claim, and \<open>predict_from_audio\<close> ends in the scaler's \<open>ValueError\<close>.
\<close>

theorem live_path_skips_reconciliation:
  "expected_features (predictor (checking_detector 82)) = 82 \<and>
   map_sum id length
     (extract_features (sample_env 82) (checking_predictor 82) ''a.wav'' 22050 3) = Inr 82 \<and>
   predict (sample_env 82) (checking_predictor 82) ''a.wav'' =
     Inr (''Happy'', Some (7/10), [''Angry'' \<mapsto> 1/5, ''Happy'' \<mapsto> 7/10, ''Neutral'' \<mapsto> 1/10]) \<and>
   map_sum id length
     (extract_features_from_audio (sample_env 82) (checking_detector 82) [1/2, 1/4, 0]) =
     Inr 81 \<and>
   predict_from_audio (sample_env 82) (checking_detector 82) [1/2, 1/4, 0] =
     Inl (Exn ValueError ''X has a different number of features than expected'')"
proof -
  have e: "expected_features (checking_predictor 82) = 82"
    by (simp add: checking_predictor_def)
  have p: "predictor (checking_detector 82) = checking_predictor 82"
    by (simp add: checking_detector_def)
  have padded: "extract_features (sample_env 82) (checking_predictor 82) ''a.wav'' 22050 3 =
     Inr (replicate 13 2 @ replicate 13 0 @ replicate 13 2 @ replicate 13 0 @
          replicate 13 2 @ replicate 13 0 @ [1, 1, 1, 0])"
    by (simp add: extract_features_run [OF sample_exists(1) sample_load(1) sample_stack]
        reconcile_dimension_def e)
  have live: "extract_features_from_audio (sample_env 82) (checking_detector 82)
       [1/2, 1/4, 0] =
     Inr (replicate 13 3 @ replicate 13 0 @ replicate 13 3 @ replicate 13 0 @
          replicate 13 3 @ replicate 13 0 @ [1, 1, 1])"
    by (simp add: extract_features_from_audio_def ensure_length_def sample_stack
        checking_detector_def Let_def)
  have ok: "classify (checking_predictor 82)
       (replicate 13 2 @ replicate 13 0 @ replicate 13 2 @ replicate 13 0 @
        replicate 13 2 @ replicate 13 0 @ [1, 1, 1, 0]) =
     Inr (''Happy'', Some (7/10), [''Angry'' \<mapsto> 1/5, ''Happy'' \<mapsto> 7/10, ''Neutral'' \<mapsto> 1/10])"
    by (simp add: classify_def checking_predictor_def checking_scaler_def
        sample_classifier_def list_get_def dict_get_def RAVDESS_emotion_map_def)
  have bad: "classify (checking_predictor 82)
       (replicate 13 3 @ replicate 13 0 @ replicate 13 3 @ replicate 13 0 @
        replicate 13 3 @ replicate 13 0 @ [1, 1, 1]) =
     Inl (Exn ValueError ''X has a different number of features than expected'')"
    by (simp add: classify_def checking_predictor_def checking_scaler_def)
  show ?thesis
    by (simp add: e p padded live predict_def predict_from_audio_def ok bad)
qed

subsection \<open>The two padding rules\<close>

text \<open>
  C2. When the stacked features \<open>f\<close> of the decoded file have 81 entries,
  \<open>extract_features\<close> returns \<open>f\<close> followed by exactly one zero if the scaler
  expects 82 features (so the last entry is 0), and \<open>f\<close> followed by exactly two
  zeros if it expects 83.
\<close>

theorem extract_features_padding:
  assumes "os_path_exists E path" and "librosa_load E path sr d = Inr (y, sr')"
    and "stack_features E y sr' = Inr f" and "length f = 81"
  shows "(expected_features self = 82 \<longrightarrow>
            extract_features E self path sr d = Inr (f @ [0]) \<and> last (f @ [0]) = 0) \<and>
         (expected_features self = 83 \<longrightarrow>
            extract_features E self path sr d = Inr (f @ [0, 0]))"
  using assms(4)
  by (simp add: extract_features_run [OF assms(1-3)] reconcile_dimension_def replicate_two)

theorem extract_features_padding_witness:
  "extract_features (sample_env 82) (sample_predictor 82) ''a.wav'' 22050 3 =
     Inr ((replicate 13 2 @ replicate 13 0 @ replicate 13 2 @ replicate 13 0 @
           replicate 13 2 @ replicate 13 0 @ [1, 1, 1]) @ [0]) \<and>
   extract_features (sample_env 83) (sample_predictor 83) ''a.wav'' 22050 3 =
     Inr ((replicate 13 2 @ replicate 13 0 @ replicate 13 2 @ replicate 13 0 @
           replicate 13 2 @ replicate 13 0 @ [1, 1, 1]) @ [0, 0])"
proof -
  let ?f = "replicate 13 (real (length [1/2, - 1/2 :: real])) @ replicate 13 0 @
            replicate 13 (real (length [1/2, - 1/2 :: real])) @ replicate 13 0 @
            replicate 13 (real (length [1/2, - 1/2 :: real])) @ replicate 13 0 @ [1, 1, 1]"
  have len: "length ?f = 81" by simp
  show ?thesis
    using extract_features_padding [where E = "sample_env 82" and self = "sample_predictor 82"
          and sr = 22050 and d = 3, OF sample_exists(1) sample_load(1) sample_stack len]
      extract_features_padding [where E = "sample_env 83" and self = "sample_predictor 83"
          and sr = 22050 and d = 3, OF sample_exists(1) sample_load(1) sample_stack len]
    by (simp add: sample_expected)
qed

subsection \<open>The dimension error\<close>

text \<open>
  C7, as amended. For an existing file whose stacked features \<open>f\<close> have a length that
  differs from \<open>expected_features\<close> and that neither padding rule reconciles,
  \<open>extract_features\<close> raises an exception whose text names the expected and the
  produced length. The \<open>ValueError\<close> raised by the check is caught by the enclosing
  handler: what the caller receives is of class \<open>Exception\<close>, as is every other
  failure of the extraction of an existing file.
\<close>

theorem extract_features_dimension_error:
  assumes "os_path_exists E path"
  shows "(\<forall>y sr' f. librosa_load E path sr d = Inr (y, sr') \<longrightarrow>
            stack_features E y sr' = Inr f \<longrightarrow>
            length f \<noteq> expected_features self \<longrightarrow>
            \<not> (length f = 81 \<and> expected_features self \<in> {82, 83}) \<longrightarrow>
            extract_features E self path sr d =
              Inl (Exn Exception (''Feature extraction failed: '' @
                ''Feature dimension mismatch: expected '' @ str_nat (expected_features self) @
                '', got '' @ str_nat (length f)))) \<and>
         (\<forall>e. extract_features E self path sr d = Inl e \<longrightarrow> exn_class e = Exception)"
proof (intro conjI allI impI)
  fix y sr' f
  assume l: "librosa_load E path sr d = Inr (y, sr')" and s: "stack_features E y sr' = Inr f"
    and "length f \<noteq> expected_features self"
    and "\<not> (length f = 81 \<and> expected_features self \<in> {82, 83})"
  then show "extract_features E self path sr d =
      Inl (Exn Exception (''Feature extraction failed: '' @
        ''Feature dimension mismatch: expected '' @ str_nat (expected_features self) @
        '', got '' @ str_nat (length f)))"
    by (simp add: extract_features_run [OF assms l s] reconcile_dimension_def)
next
  fix e assume "extract_features E self path sr d = Inl e"
  with assms show "exn_class e = Exception" by (rule extract_features_Inl_class)
qed

theorem extract_features_dimension_error_witness:
  "extract_features (sample_env 80) (sample_predictor 80) ''a.wav'' 22050 3 =
     Inl (Exn Exception
       ''Feature extraction failed: Feature dimension mismatch: expected 80, got 81'')"
  using extract_features_dimension_error [where E = "sample_env 80" and
      self = "sample_predictor 80" and sr = 22050 and d = 3, OF sample_exists(1)]
  by (simp add: sample_load sample_stack sample_expected str_nat.simps digit_char_def)

text \<open>
  C7 as stated fails: a dimension mismatch and a decoding failure reach the caller as
  exceptions of the same class, told apart by their text only.
\<close>

theorem extract_features_dimension_error_counterexample:
  "extract_features (sample_env 84) (sample_predictor 84) ''a.wav'' 22050 3 =
     Inl (Exn Exception
       ''Feature extraction failed: Feature dimension mismatch: expected 84, got 81'') \<and>
   extract_features (sample_env 84) (sample_predictor 84) ''broken.wav'' 22050 3 =
     Inl (Exn Exception ''Feature extraction failed: decode error'')"
  by (simp add: extract_features_run [OF sample_exists(1) sample_load(1) sample_stack]
      reconcile_dimension_def sample_expected str_nat.simps digit_char_def)
    (simp add: extract_features_def sample_exists sample_load)

subsection \<open>Confidence and distribution of a prediction\<close>

lemma list_get_Inr: "list_get xs i = Inr x \<longleftrightarrow> i < length xs \<and> x = xs ! i"
  by (auto simp: list_get_def)

lemma dict_get_Inr: "dict_get m k = Inr v \<longleftrightarrow> m k = Some v"
  by (simp add: dict_get_def split: option.splits)

lemma map_upd_add: "m(k \<mapsto> v) ++ map_of xs = m ++ map_of (xs @ [(k, v)])"
  by (rule ext) (simp add: map_add_def split: option.splits)

lemma map_probabilities_zip:
  assumes "map_probabilities self idx probs d = Inr d'"
  shows "\<exists>names. list_all2 (\<lambda>cid name. emotion_map self cid = Some name)
             (take (length probs) (drop idx (classes (model self)))) names \<and>
           length names = length probs \<and>
           d' = d ++ map_of (rev (zip names probs))"
  using assms
proof (induction probs arbitrary: idx d)
  case Nil
  then show ?case by simp
next
  case (Cons p ps)
  let ?cs = "classes (model self)"
  from Cons.prems obtain name where
    idx: "idx < length ?cs" and name: "emotion_map self (?cs ! idx) = Some name"
    and rest: "map_probabilities self (idx + 1) ps (d(name \<mapsto> p)) = Inr d'"
    by (auto simp: and_then_eq_Inr list_get_Inr dict_get_Inr)
  from Cons.IH [OF rest] obtain names where
    all: "list_all2 (\<lambda>cid name. emotion_map self cid = Some name)
            (take (length ps) (drop (idx + 1) ?cs)) names"
    and len: "length names = length ps"
    and d': "d' = d(name \<mapsto> p) ++ map_of (rev (zip names ps))"
    by blast
  from idx have split: "take (length (p # ps)) (drop idx ?cs) =
      ?cs ! idx # take (length ps) (drop (idx + 1) ?cs)"
    by (simp add: Cons_nth_drop_Suc [symmetric])
  have "list_all2 (\<lambda>cid name. emotion_map self cid = Some name)
      (take (length (p # ps)) (drop idx ?cs)) (name # names)"
    unfolding split using name all by simp
  moreover have "length (name # names) = length (p # ps)" using len by simp
  moreover have "d' = d ++ map_of (rev (zip (name # names) (p # ps)))"
    unfolding d' by (simp only: zip_Cons_Cons rev.simps map_upd_add)
  ultimately show ?case by blast
qed

lemma classify_result:
  assumes "classify self features = Inr (label, confidence, distribution)"
  shows "\<exists>scaled ids. transform (scaler self) [features] = Inr scaled \<and>
      clf_predict (model self) scaled = Inr ids \<and> ids \<noteq> [] \<and>
      emotion_map self (hd ids) = Some label \<and>
      (case clf_predict_proba (model self) of
         None \<Rightarrow> confidence = None \<and> distribution = Map.empty
       | Some predict_proba \<Rightarrow>
           (\<exists>rows probs names c. predict_proba scaled = Inr (probs # rows) \<and>
              list_all2 (\<lambda>cid name. emotion_map self cid = Some name)
                (take (length probs) (classes (model self))) names \<and>
              distribution = map_of (rev (zip names probs)) \<and>
              confidence = Some c \<and> distribution label = Some c))"
proof -
  from assms obtain scaled ids lab where
    t: "transform (scaler self) [features] = Inr scaled"
    and p: "clf_predict (model self) scaled = Inr ids"
    and i: "0 < length ids"
    and l: "emotion_map self (ids ! 0) = Some lab"
    and rest: "(case clf_predict_proba (model self) of
           None \<Rightarrow> Inr (lab, None, Map.empty)
         | Some predict_proba \<Rightarrow>
             and_then (predict_proba scaled) (\<lambda>rows.
             and_then (list_get rows 0) (\<lambda>probs.
             and_then (map_probabilities self 0 probs Map.empty) (\<lambda>probabilities.
             and_then (dict_get probabilities lab) (\<lambda>confidence.
               Inr (lab, Some confidence, probabilities)))))) =
        Inr (label, confidence, distribution)"
    unfolding classify_def Let_def and_then_eq_Inr list_get_Inr dict_get_Inr by blast
  have tail: "lab = label \<and> (case clf_predict_proba (model self) of
         None \<Rightarrow> confidence = None \<and> distribution = Map.empty
       | Some predict_proba \<Rightarrow>
           (\<exists>rows probs names c. predict_proba scaled = Inr (probs # rows) \<and>
              list_all2 (\<lambda>cid name. emotion_map self cid = Some name)
                (take (length probs) (classes (model self))) names \<and>
              distribution = map_of (rev (zip names probs)) \<and>
              confidence = Some c \<and> distribution label = Some c))"
  proof (cases "clf_predict_proba (model self)")
    case None
    with rest show ?thesis by simp
  next
    case (Some pp)
    with rest obtain rows' probs c where
      r: "pp scaled = Inr rows'" and g: "0 < length rows'" "probs = rows' ! 0"
      and m: "map_probabilities self 0 probs Map.empty = Inr distribution"
      and c: "distribution lab = Some c" "confidence = Some c" and lab: "lab = label"
      by (auto simp: and_then_eq_Inr list_get_Inr dict_get_Inr)
    from g obtain rows where rows: "rows' = probs # rows" by (cases rows') auto
    from map_probabilities_zip [OF m] obtain names where
      "list_all2 (\<lambda>cid name. emotion_map self cid = Some name)
         (take (length probs) (classes (model self))) names"
      "distribution = map_of (rev (zip names probs))" by auto
    with r rows c Some lab show ?thesis by auto
  qed
  from i have "ids \<noteq> []" by auto
  moreover from i l tail have "emotion_map self (hd ids) = Some label"
    by (simp add: hd_conv_nth)
  ultimately show ?thesis using t p tail by blast
qed

text \<open>
  C3. When \<open>predict\<close> returns \<open>(label, confidence, distribution)\<close>, the label is the
  entry of the emotion table for the class the classifier predicted on the scaled
  feature row. If the classifier has a probability operation, its first row
  \<open>probs\<close> is zipped with the classifier's own class order (the first
  \<open>length probs\<close> entries of \<open>classes_\<close>, each mapped through the emotion table to
  \<open>names\<close>): the distribution is the dictionary of these pairs, a later pair
  replacing an earlier one of the same name, and the confidence is the entry of the
  distribution at the label. If the classifier has no probability operation, the
  confidence is \<open>None\<close> and the distribution is empty.
\<close>

theorem predict_confidence_and_distribution:
  assumes "predict E self path = Inr (label, confidence, distribution)"
  shows "\<exists>features scaled ids.
      extract_features E self path 22050 3 = Inr features \<and>
      transform (scaler self) [features] = Inr scaled \<and>
      clf_predict (model self) scaled = Inr ids \<and> ids \<noteq> [] \<and>
      emotion_map self (hd ids) = Some label \<and>
      (case clf_predict_proba (model self) of
         None \<Rightarrow> confidence = None \<and> distribution = Map.empty
       | Some predict_proba \<Rightarrow>
           (\<exists>rows probs names c. predict_proba scaled = Inr (probs # rows) \<and>
              list_all2 (\<lambda>cid name. emotion_map self cid = Some name)
                (take (length probs) (classes (model self))) names \<and>
              distribution = map_of (rev (zip names probs)) \<and>
              confidence = Some c \<and> distribution label = Some c))"
proof -
  from assms obtain features where
    f: "extract_features E self path 22050 3 = Inr features"
    and c: "classify self features = Inr (label, confidence, distribution)"
    by (auto simp: predict_def and_then_eq_Inr)
  from classify_result [OF c] f show ?thesis by blast
qed

lemma sample_extract_81:
  "extract_features (sample_env 81) (sample_predictor 81) ''a.wav'' 22050 3 =
     Inr (replicate 13 2 @ replicate 13 0 @ replicate 13 2 @ replicate 13 0 @
          replicate 13 2 @ replicate 13 0 @ [1, 1, 1])"
  by (simp add: extract_features_run [OF sample_exists(1) sample_load(1) sample_stack]
      reconcile_dimension_def sample_expected)

lemma sample_classify:
  "classify (sample_predictor n) f =
     Inr (''Happy'', Some (7/10), [''Angry'' \<mapsto> 1/5, ''Happy'' \<mapsto> 7/10, ''Neutral'' \<mapsto> 1/10])"
  by (simp add: classify_def sample_predictor_def sample_scaler_def sample_classifier_def
      list_get_def dict_get_def RAVDESS_emotion_map_def)

lemma sample_classify_no_proba:
  "classify (sample_predictor n\<lparr>model := sample_classifier\<lparr>clf_predict_proba := None\<rparr>\<rparr>) f =
     Inr (''Happy'', None, Map.empty)"
  by (simp add: classify_def sample_predictor_def sample_scaler_def sample_classifier_def
      list_get_def dict_get_def RAVDESS_emotion_map_def)


lemma sample_predict:
  "predict (sample_env 81) (sample_predictor 81) ''a.wav'' =
     Inr (''Happy'', Some (7/10), [''Angry'' \<mapsto> 1/5, ''Happy'' \<mapsto> 7/10, ''Neutral'' \<mapsto> 1/10])"
  by (simp add: predict_def sample_extract_81 sample_classify)

lemma sample_predict_no_proba:
  "predict (sample_env 81)
     (sample_predictor 81\<lparr>model := sample_classifier\<lparr>clf_predict_proba := None\<rparr>\<rparr>) ''a.wav'' =
     Inr (''Happy'', None, Map.empty)"
proof -
  have "expected_features (sample_predictor 81\<lparr>model := sample_classifier\<lparr>clf_predict_proba := None\<rparr>\<rparr>) = 81"
    by (simp add: sample_predictor_def)
  then show ?thesis
    by (simp add: predict_def sample_classify_no_proba
        extract_features_run [OF sample_exists(1) sample_load(1) sample_stack]
        reconcile_dimension_def)
qed

lemma sample_predict_missing:
  "predict (sample_env 81) (sample_predictor 81) ''missing.wav'' =
     Inl (Exn FileNotFoundError ''Audio file not found: missing.wav'')"
  by (simp add: predict_def extract_features_def sample_env_def)

lemma sample_predict_broken:
  "predict (sample_env 81) (sample_predictor 81) ''broken.wav'' =
     Inl (Exn Exception ''Feature extraction failed: decode error'')"
  by (simp add: predict_def extract_features_def sample_exists sample_load)

theorem predict_confidence_and_distribution_witness:
  "predict (sample_env 81) (sample_predictor 81) ''a.wav'' =
     Inr (''Happy'', Some (7/10),
          map_of (rev (zip [''Angry'', ''Happy'', ''Neutral''] [1/5, 7/10, 1/10]))) \<and>
   map_of (rev (zip [''Angry'', ''Happy'', ''Neutral''] [1/5, 7/10, 1/10 :: real])) ''Happy'' =
     Some (7/10) \<and>
   predict (sample_env 81)
     (sample_predictor 81\<lparr>model := sample_classifier\<lparr>clf_predict_proba := None\<rparr>\<rparr>) ''a.wav'' =
     Inr (''Happy'', None, Map.empty)"
  using predict_confidence_and_distribution [OF sample_predict]
    predict_confidence_and_distribution [OF sample_predict_no_proba]
  by (simp add: sample_predict sample_predict_no_proba)

subsection \<open>Batch prediction\<close>

lemma predict_batch_loop_append:
  "predict_batch_loop E self paths results =
     results @ map (\<lambda>path. case predict E self path of
         Inr (emotion, confidence, probabilities) \<Rightarrow> (Some emotion, confidence, probabilities)
       | Inl e \<Rightarrow> (None, None, Map.empty)) paths"
  by (induction paths arbitrary: results) (auto split: sum.splits)

text \<open>
  C4. \<open>predict_batch\<close> returns one entry per input path, in input order: the entry
  at a position is the tuple \<open>predict\<close> returns for the path at that position, or
  \<open>(None, None, {})\<close> when \<open>predict\<close> raises for it. An entry depends on its own
  path only, so a failure neither ends the batch nor changes another entry.
\<close>

theorem predict_batch_isolation:
  "predict_batch E self paths =
     map (\<lambda>path. case predict E self path of
         Inr (emotion, confidence, probabilities) \<Rightarrow> (Some emotion, confidence, probabilities)
       | Inl e \<Rightarrow> (None, None, Map.empty)) paths \<and>
   length (predict_batch E self paths) = length paths \<and>
   (\<forall>i < length paths.
      (\<forall>e. predict E self (paths ! i) = Inl e \<longrightarrow>
         predict_batch E self paths ! i = (None, None, Map.empty)) \<and>
      (\<forall>emotion confidence probabilities.
         predict E self (paths ! i) = Inr (emotion, confidence, probabilities) \<longrightarrow>
         predict_batch E self paths ! i = (Some emotion, confidence, probabilities)))"
  by (simp add: predict_batch_def predict_batch_loop_append)

theorem predict_batch_isolation_witness:
  "predict_batch (sample_env 81) (sample_predictor 81)
     [''a.wav'', ''missing.wav'', ''broken.wav'', ''a.wav''] =
   [(Some ''Happy'', Some (7/10), [''Angry'' \<mapsto> 1/5, ''Happy'' \<mapsto> 7/10, ''Neutral'' \<mapsto> 1/10]),
    (None, None, Map.empty),
    (None, None, Map.empty),
    (Some ''Happy'', Some (7/10), [''Angry'' \<mapsto> 1/5, ''Happy'' \<mapsto> 7/10, ''Neutral'' \<mapsto> 1/10])]"
  using predict_batch_isolation [of "sample_env 81" "sample_predictor 81"
      "[''a.wav'', ''missing.wav'', ''broken.wav'', ''a.wav'']"]
  by (simp add: sample_predict sample_predict_missing sample_predict_broken)

subsection \<open>Silence rejection in the live loop\<close>

lemma fold_max_less:
  "fold max (map abs xs) (a::real) < c \<longleftrightarrow> a < c \<and> (\<forall>x \<in> set xs. \<bar>x\<bar> < c)"
  by (induction xs arbitrary: a) auto

lemma np_max_abs_quiet:
  assumes "audio \<noteq> []" and "\<forall>x \<in> set audio. \<bar>x\<bar> < c"
  shows "\<exists>peak. np_max_abs audio = Inr peak \<and> peak < c"
  using assms by (cases audio) (auto simp: np_max_abs_def fold_max_less)

lemma np_max_abs_Cons: "np_max_abs (x # xs) = Inr (fold max (map abs xs) \<bar>x\<bar>)"
  by (simp add: np_max_abs_def)

lemma emit_emit: "emit xs (emit ys r) = emit (xs @ ys) r"
  by (simp add: emit_def split: prod.splits)

lemma emit_triple [simp]: "emit xs (t, e, s) = (xs @ t, e, s)"
  by (simp add: emit_def)

text \<open>
  C6, as amended. A recorded buffer (non-empty) all of whose samples are, in absolute
  value, below the float32 nearest to 0.01 (\<open>5368709 / 2^29\<close>, the value the peak
  is compared with) never reaches the predictor, whatever the environment and the
  model are. In single-shot mode the run is the initial pause, the recording and the
  warning, and ends without a result. In continuous mode, at any iteration, the steps
  for that buffer are the recording and the warning, after which the loop goes on with
  the next recording (no result is displayed and there is no pause).
\<close>

theorem quiet_recording_rejected:
  assumes "audio \<noteq> []" and "\<forall>x \<in> set audio. \<bar>x\<bar> < float32_0_01"
  shows "run_single E self audio = ([Sleep 3, Record_audio, Quiet_warning], None, self) \<and>
    continuous_loop E self iteration (audio # recordings) =
      emit [Record_audio, Quiet_warning] (continuous_loop E self (iteration + 1) recordings) \<and>
    run_continuous E self (audio # recordings) =
      emit [Sleep 3, Record_audio, Quiet_warning] (continuous_loop E self 1 recordings)"
proof -
  from np_max_abs_quiet [OF assms] obtain peak where
    "np_max_abs audio = Inr peak" "peak < float32_0_01" by blast
  then show ?thesis
    by (simp add: run_single_def run_continuous_def emit_emit)
qed

lemma sample_predict_from_audio:
  "predict_from_audio (sample_env n) (sample_detector n) audio =
     Inr (''Happy'', Some (7/10), [''Angry'' \<mapsto> 1/5, ''Happy'' \<mapsto> 7/10, ''Neutral'' \<mapsto> 1/10])"
  by (simp add: predict_from_audio_def extract_features_from_audio_def sample_stack
      sample_detector_def sample_classify Let_def)

theorem quiet_recording_rejected_witness:
  "run_single (sample_env 81) (sample_detector 81) [1/200, - 1/250] =
     ([Sleep 3, Record_audio, Quiet_warning], None, sample_detector 81) \<and>
   run_continuous (sample_env 81) (sample_detector 81) [ [1/200, - 1/250], [1/2, - 1/2] ] =
     ([Sleep 3, Record_audio, Quiet_warning, Record_audio,
       Display_result 2 (''Happy'', Some (7/10),
         [''Angry'' \<mapsto> 1/5, ''Happy'' \<mapsto> 7/10, ''Neutral'' \<mapsto> 1/10]),
       Sleep 2, Stopping], None, sample_detector 81)"
proof -
  have ne: "[1/200, - 1/250 :: real] \<noteq> []" by simp
  have q: "\<forall>x \<in> set [1/200, - 1/250 :: real]. \<bar>x\<bar> < float32_0_01"
    by (simp add: float32_0_01_def)
  note step = quiet_recording_rejected [OF ne q, of "sample_env 81" "sample_detector 81" 0
      "[ [1/2, - 1/2] ]"]
  have rest: "continuous_loop (sample_env 81) (sample_detector 81) 1 [ [1/2, - 1/2] ] =
     ([Record_audio,
       Display_result 2 (''Happy'', Some (7/10),
         [''Angry'' \<mapsto> 1/5, ''Happy'' \<mapsto> 7/10, ''Neutral'' \<mapsto> 1/10]),
       Sleep 2, Stopping], None, sample_detector 81)"
    by (simp add: sample_predict_from_audio np_max_abs_Cons float32_0_01_def)
  from step have "run_single (sample_env 81) (sample_detector 81) [1/200, - 1/250] =
     ([Sleep 3, Record_audio, Quiet_warning], None, sample_detector 81)"
    by (rule conjunct1)
  moreover from step have
    "run_continuous (sample_env 81) (sample_detector 81) [ [1/200, - 1/250], [1/2, - 1/2] ] =
      emit [Sleep 3, Record_audio, Quiet_warning]
        (continuous_loop (sample_env 81) (sample_detector 81) 1 [ [1/2, - 1/2] ])"
    by (rule conjunct2 [THEN conjunct2])
  ultimately show ?thesis unfolding rest by simp
qed

text \<open>
  C6 as stated fails at the threshold: a buffer whose peak is the float32 nearest to
  0.01 has a maximum absolute value below 0.01, and both modes hand it to the
  predictor and display a result.
\<close>

theorem quiet_recording_counterexample:
  "fold max (map abs [0, - 1/200]) \<bar>5368709 / 536870912\<bar> < (0.01 :: real) \<and>
   run_single (sample_env 81) (sample_detector 81) [5368709 / 536870912, 0, - 1/200] =
     ([Sleep 3, Record_audio, Recording_complete,
       Display_result 1 (''Happy'', Some (7/10),
         [''Angry'' \<mapsto> 1/5, ''Happy'' \<mapsto> 7/10, ''Neutral'' \<mapsto> 1/10])],
      None, sample_detector 81) \<and>
   run_continuous (sample_env 81) (sample_detector 81) [ [5368709 / 536870912, 0, - 1/200] ] =
     ([Sleep 3, Record_audio,
       Display_result 1 (''Happy'', Some (7/10),
         [''Angry'' \<mapsto> 1/5, ''Happy'' \<mapsto> 7/10, ''Neutral'' \<mapsto> 1/10]),
       Sleep 2, Stopping], None, sample_detector 81)"
  by (simp add: run_single_def run_continuous_def sample_predict_from_audio np_max_abs_Cons
      float32_0_01_def)

subsection \<open>Length of the buffer on the live path\<close>

text \<open>
  C8, as amended. On the live path, for a non-negative \<open>duration \<times> sample_rate\<close>,
  the buffer handed to the feature computation is the first
  \<open>duration \<times> sample_rate\<close> samples of the recorded buffer: a longer buffer is
  truncated to exactly that many samples, a buffer that is not longer is passed on
  unchanged (nothing is padded), so its length is the minimum of the two.
\<close>

theorem ensure_length_truncates_only:
  assumes "0 \<le> duration self * sample_rate self"
  shows "ensure_length self audio = take (nat (duration self * sample_rate self)) audio \<and>
    length (ensure_length self audio) =
      min (length audio) (nat (duration self * sample_rate self)) \<and>
    (int (length audio) \<le> duration self * sample_rate self \<longrightarrow>
       ensure_length self audio = audio) \<and>
    extract_features_from_audio E self audio =
      stack_features E (take (nat (duration self * sample_rate self)) audio) (sample_rate self)"
proof -
  have "ensure_length self audio = take (nat (duration self * sample_rate self)) audio"
    using assms by (auto simp: ensure_length_def slice_to_def)
  then show ?thesis
    by (auto simp: extract_features_from_audio_def)
qed

theorem ensure_length_truncates_only_witness:
  "ensure_length (sample_detector 81) [1/10, 2/10, 3/10, 4/10, 5/10] = [1/10, 2/10, 3/10] \<and>
   ensure_length (sample_detector 81) [1/10, 2/10] = [1/10, 2/10]"
proof -
  have d: "0 \<le> duration (sample_detector 81) * sample_rate (sample_detector 81)"
    by (simp add: sample_detector_def)
  show ?thesis
    using ensure_length_truncates_only [OF d, of "[1/10, 2/10, 3/10, 4/10, 5/10]"]
      ensure_length_truncates_only [OF d, of "[1/10, 2/10]"]
    by (simp add: sample_detector_def)
qed

text \<open>
  C8 as stated fails: with \<open>duration \<times> sample_rate = 3\<close> a buffer of two samples
  stays a buffer of two samples, and the feature computation sees two samples (the
  cepstral stand-in of the concrete environment reports the length it was given).
\<close>

theorem ensure_length_counterexample:
  "duration (sample_detector 81) * sample_rate (sample_detector 81) = 3 \<and>
   length (ensure_length (sample_detector 81) [1/2, - 1/2]) = 2 \<and>
   extract_features_from_audio (sample_env 81) (sample_detector 81) [1/2, - 1/2] =
     Inr (replicate 13 2 @ replicate 13 0 @ replicate 13 2 @ replicate 13 0 @
          replicate 13 2 @ replicate 13 0 @ [1, 1, 1])"
  by (simp add: ensure_length_def extract_features_from_audio_def sample_stack
      sample_detector_def)


subsection \<open>Construction of the predictor\<close>

text \<open>
  C9. \<open>EmotionPredictor.__init__\<close> raises \<open>FileNotFoundError\<close> naming the model path
  when the model path does not exist, and naming the scaler path when the model path
  exists and the scaler path does not. When it succeeds, the scaler of the predictor is
  the object loaded from the scaler path and \<open>expected_features\<close> is that scaler's
  \<open>n_features_in_\<close>. When the construction at the start of the demo script's
  \<open>main\<close> fails, with any exception, the script exits with status 1.
\<close>

theorem predictor_construction:
  "(\<not> os_path_exists E model_path \<longrightarrow>
      EmotionPredictor_init E model_path scaler_path =
        Inl (Exn FileNotFoundError (''Model not found at '' @ model_path))) \<and>
   (os_path_exists E model_path \<and> \<not> os_path_exists E scaler_path \<longrightarrow>
      EmotionPredictor_init E model_path scaler_path =
        Inl (Exn FileNotFoundError (''Scaler not found at '' @ scaler_path))) \<and>
   (\<forall>p. EmotionPredictor_init E model_path scaler_path = Inr p \<longrightarrow>
      joblib_load_scaler E scaler_path = Inr (scaler p) \<and>
      expected_features p = n_features_in (scaler p)) \<and>
   (\<forall>e. EmotionPredictor_init E ''artifacts/svm_model.pkl'' ''artifacts/standard_scaler.pkl'' =
        Inl e \<longrightarrow> main_startup E = SysExit 1)"
  by (auto simp: EmotionPredictor_init_def main_startup_def and_then_eq_Inr)

theorem predictor_construction_witness:
  "EmotionPredictor_init (sample_env 82\<lparr>os_path_exists := (\<lambda>p. p = ''artifacts/standard_scaler.pkl'')\<rparr>)
      ''artifacts/svm_model.pkl'' ''artifacts/standard_scaler.pkl'' =
     Inl (Exn FileNotFoundError ''Model not found at artifacts/svm_model.pkl'') \<and>
   main_startup (sample_env 82\<lparr>os_path_exists := (\<lambda>p. p = ''artifacts/standard_scaler.pkl'')\<rparr>) =
     SysExit 1 \<and>
   EmotionPredictor_init (sample_env 82\<lparr>os_path_exists := (\<lambda>p. p = ''artifacts/svm_model.pkl'')\<rparr>)
      ''artifacts/svm_model.pkl'' ''artifacts/standard_scaler.pkl'' =
     Inl (Exn FileNotFoundError ''Scaler not found at artifacts/standard_scaler.pkl'') \<and>
   main_startup (sample_env 82\<lparr>os_path_exists := (\<lambda>p. p = ''artifacts/svm_model.pkl'')\<rparr>) =
     SysExit 1 \<and>
   EmotionPredictor_init (sample_env 82) ''artifacts/svm_model.pkl''
      ''artifacts/standard_scaler.pkl'' = Inr (sample_predictor 82) \<and>
   expected_features (sample_predictor 82) = 82"
  using predictor_construction [of
      "sample_env 82\<lparr>os_path_exists := (\<lambda>p. p = ''artifacts/standard_scaler.pkl'')\<rparr>"
      "''artifacts/svm_model.pkl''" "''artifacts/standard_scaler.pkl''"]
    predictor_construction [of
      "sample_env 82\<lparr>os_path_exists := (\<lambda>p. p = ''artifacts/svm_model.pkl'')\<rparr>"
      "''artifacts/svm_model.pkl''" "''artifacts/standard_scaler.pkl''"]
    predictor_construction [of "sample_env 82"
      "''artifacts/svm_model.pkl''" "''artifacts/standard_scaler.pkl''"]
  by (simp add: EmotionPredictor_init_def sample_env_def sample_predictor_def sample_scaler_def)

subsection \<open>The prediction history\<close>

lemma snd_snd_emit [simp]: "snd (snd (emit evs r)) = snd (snd r)"
  by (simp add: emit_def split: prod.splits)

lemma continuous_loop_detector:
  "snd (snd (continuous_loop E self iteration recordings)) = self"
  by (induction recordings arbitrary: iteration) (simp_all split: sum.splits)

lemma run_detector_unchanged:
  "snd (snd (run_continuous E self recordings)) = self"
  "snd (snd (run_single E self audio)) = self"
  by (simp_all add: run_continuous_def run_single_def continuous_loop_detector
      split: sum.splits)

text \<open>
  C5. No run of the live loop changes the detector (lemma \<open>run_detector_unchanged\<close>),
  so the history created empty by \<open>__init__\<close> stays empty: after four accepted
  recordings in continuous mode four results have been displayed and the history of
  the detector is still \<open>[]\<close>; likewise after a single-shot run.
\<close>

theorem history_stays_empty:
  "run_continuous (sample_env 81) (sample_detector 81)
     [ [1/2, - 1/2], [1/2, - 1/2], [1/2, - 1/2], [1/2, - 1/2] ] =
     ([Sleep 3,
       Record_audio, Display_result 1 (''Happy'', Some (7/10),
         [''Angry'' \<mapsto> 1/5, ''Happy'' \<mapsto> 7/10, ''Neutral'' \<mapsto> 1/10]), Sleep 2,
       Record_audio, Display_result 2 (''Happy'', Some (7/10),
         [''Angry'' \<mapsto> 1/5, ''Happy'' \<mapsto> 7/10, ''Neutral'' \<mapsto> 1/10]), Sleep 2,
       Record_audio, Display_result 3 (''Happy'', Some (7/10),
         [''Angry'' \<mapsto> 1/5, ''Happy'' \<mapsto> 7/10, ''Neutral'' \<mapsto> 1/10]), Sleep 2,
       Record_audio, Display_result 4 (''Happy'', Some (7/10),
         [''Angry'' \<mapsto> 1/5, ''Happy'' \<mapsto> 7/10, ''Neutral'' \<mapsto> 1/10]), Sleep 2,
       Stopping], None, sample_detector 81) \<and>
   history (sample_detector 81) = [] \<and>
   run_single (sample_env 81) (sample_detector 81) [1/2, - 1/2] =
     ([Sleep 3, Record_audio, Recording_complete,
       Display_result 1 (''Happy'', Some (7/10),
         [''Angry'' \<mapsto> 1/5, ''Happy'' \<mapsto> 7/10, ''Neutral'' \<mapsto> 1/10])],
      None, sample_detector 81)"
  by (simp add: run_continuous_def run_single_def sample_predict_from_audio np_max_abs_Cons
      float32_0_01_def)
    (simp add: sample_detector_def)

end
